theory Spec2Isabelle
  imports Main
begin

section \<open>Python values used by \<^verbatim>\<open>manim_code_blocks.py\<close>\<close>

text \<open>
  Exceptions are values: every operation that can raise returns \<open>py_error + 'a\<close>, with
  \<open>Inl\<close> the exception that leaves the function.
\<close>

datatype py_error =
  AttributeError | KeyError | IndexError | ZeroDivisionError | URLError | JSONDecodeError
  | LibraryError

text \<open>\<^verbatim>\<open>xs[i]\<close> on a list: a negative index counts from the end, an index out of range raises.\<close>

definition py_getitem :: "'a list \<Rightarrow> int \<Rightarrow> py_error + 'a" where
  "py_getitem xs i =
     (let n = int (length xs); j = (if i < 0 then i + n else i)
      in if 0 \<le> j \<and> j < n then Inr (xs ! nat j) else Inl IndexError)"

text \<open>\<^verbatim>\<open>a % b\<close> on unbounded integers: floored, and raising when \<open>b\<close> is zero.\<close>

definition py_mod :: "int \<Rightarrow> int \<Rightarrow> py_error + int" where
  "py_mod a b = (if b = 0 then Inl ZeroDivisionError else Inr (a mod b))"

text \<open>\<^verbatim>\<open>s.startswith(p)\<close>.\<close>

definition startswith :: "string \<Rightarrow> string \<Rightarrow> bool" where
  "startswith s p = (take (length p) s = p)"

text \<open>
  \<^verbatim>\<open>s.split(sep)\<close> for a separator of one character: the pieces between the separators,
  empty pieces included, so the result is never empty.
\<close>

fun str_split :: "string \<Rightarrow> char \<Rightarrow> string list" where
  "str_split [] sep = [[]]"
| "str_split (c # cs) sep =
     (if c = sep then [] # str_split cs sep
      else (case str_split cs sep of
              [] \<Rightarrow> [[c]]
            | piece # pieces \<Rightarrow> (c # piece) # pieces))"

text \<open>
  \<^verbatim>\<open>regex.sub(pattern, repl, string)\<close> where the pattern is one literal character and the
  replacement has no backslash: each occurrence of the character is replaced.
\<close>

definition regex_sub :: "char \<Rightarrow> string \<Rightarrow> string \<Rightarrow> string" where
  "regex_sub pattern repl s = concat (map (\<lambda>c. if c = pattern then repl else [c]) s)"

section \<open>Tokens and themes\<close>

text \<open>A \<^verbatim>\<open>tokenize_all.Token\<close>: the fields the code block reads.\<close>

record Token =
  type :: string
  "value" :: string

text \<open>
  An entry of a theme's color list is a token type or a callable
  (\<^verbatim>\<open>list[str | Callable]\<close>); the number stands for the callable's identity.
\<close>

datatype type_spec = Str string | Callable nat

text \<open>
  \<^verbatim>\<open>Theme.colors\<close> is a dict from color to the list of token types of that color; it is
  read in insertion order, so it is kept as the list of its items.
\<close>

record Theme =
  colors :: "(string \<times> type_spec list) list"
  group_matchers :: "string list"

text \<open>The loop of \<^verbatim>\<open>Theme.color_for\<close> over \<^verbatim>\<open>self.colors.items()\<close>.\<close>

fun color_items :: "(string \<times> type_spec list) list \<Rightarrow> Token \<Rightarrow> string" where
  "color_items [] token = ''#FFFFFF''"
| "color_items ((key, val) # rest) token =
     (if Str (type token) \<in> set val then key else color_items rest token)"

definition color_for :: "Theme \<Rightarrow> Token \<Rightarrow> string" where
  "color_for self token = color_items (colors self) token"

text \<open>The theme \<^verbatim>\<open>OneDark\<close>; \<^verbatim>\<open>GRAY_C\<close> is a constant of manim and is taken as a parameter.\<close>

definition OneDark :: "string \<Rightarrow> Theme" where
  "OneDark GRAY_C =
     \<lparr>colors =
        [(''#C678DD'', [Str ''keyword'', Str ''directive'']),
         (''#61AFEF'', [Str ''function'']),
         (''#E06C75'', [Str ''identifier'']),
         (''#98C379'', [Str ''string'']),
         (''#56B6C2'', [Str ''symbol'']),
         (''#D19A66'', [Str ''number'', Str ''keyword literal'']),
         (''#E5C07B'', [Str ''class name'']),
         (GRAY_C, [Str ''comment''])],
      group_matchers = [''#D19A66'', ''#C678DD'', ''#56B6C2'']\<rparr>"

section \<open>Languages\<close>

text \<open>
  A \<^verbatim>\<open>tokenize_all.TokenizableLanguage\<close>: its tokenizer, which the library supplies. The
  call can raise (\<open>LibraryError\<close> stands for an exception of the library), and nothing
  in the code block catches it.
\<close>

record TokenizableLanguage =
  tokenize :: "string \<Rightarrow> py_error + Token list"

text \<open>
  A \<^verbatim>\<open>ProgrammingLanguage\<close>. The constructor compares \<^verbatim>\<open>color\<close> and \<^verbatim>\<open>language\<close> with
  \<^verbatim>\<open>None\<close>, so both fields can hold it.
\<close>

record ProgrammingLanguage =
  name :: string
  color :: "string option"
  language :: "TokenizableLanguage option"

text \<open>
  The two tables the constructor reads: the attributes of the module \<^verbatim>\<open>tokenize_all\<close>
  (an attribute may hold \<^verbatim>\<open>None\<close>) and the JSON object \<^verbatim>\<open>language_colors\<close>, whose
  entries are objects with string or null members.
\<close>

type_synonym tokenize_all_module = "string \<rightharpoonup> TokenizableLanguage option"

type_synonym color_table = "string \<rightharpoonup> (string \<rightharpoonup> string option)"

text \<open>\<^verbatim>\<open>tokenize_name if tokenize_name else name\<close>: \<^verbatim>\<open>None\<close> and the empty string are false.\<close>

definition attribute_name :: "string \<Rightarrow> string option \<Rightarrow> string" where
  "attribute_name lang_name tokenize_name =
     (case tokenize_name of
        None \<Rightarrow> lang_name
      | Some t \<Rightarrow> if t = [] then lang_name else t)"

text \<open>
  \<^verbatim>\<open>ProgrammingLanguage.__init__\<close>. \<^verbatim>\<open>getattr\<close> without a default raises on a missing
  attribute, and so does each of the two subscripts on a missing key. The result is the
  object together with the lines printed.
\<close>

definition ProgrammingLanguage_init ::
  "tokenize_all_module \<Rightarrow> color_table \<Rightarrow> string \<Rightarrow> string option
     \<Rightarrow> py_error + (ProgrammingLanguage \<times> string list)" where
  "ProgrammingLanguage_init tokenize_all language_colors lang_name tokenize_name =
     (case tokenize_all (attribute_name lang_name tokenize_name) of
        None \<Rightarrow> Inl AttributeError
      | Some lang \<Rightarrow>
          (case language_colors lang_name of
             None \<Rightarrow> Inl KeyError
           | Some entry \<Rightarrow>
               (case entry ''color'' of
                  None \<Rightarrow> Inl KeyError
                | Some col \<Rightarrow>
                    Inr (\<lparr>name = lang_name, color = col, language = lang\<rparr>,
                         (if col = None then [''Warning: no color found for '' @ lang_name]
                          else []) @
                         (if lang = None then [''Warning: no tokenization found for '' @ lang_name]
                          else [])))))"

section \<open>Loading the module\<close>

definition colors_url :: string where
  "colors_url = ''https://raw.githubusercontent.com/ozh/github-colors/master/colors.json''"

text \<open>
  \<^verbatim>\<open>language_colors = json.loads(urlopen(...).read())\<close>, run when the module is imported.
  The network (\<^verbatim>\<open>urlopen(url).read()\<close>) and the JSON parser are parameters.
\<close>

definition language_colors ::
  "(string \<Rightarrow> py_error + string) \<Rightarrow> (string \<Rightarrow> py_error + color_table)
     \<Rightarrow> py_error + color_table" where
  "language_colors urlopen json_loads =
     (case urlopen colors_url of
        Inl e \<Rightarrow> Inl e
      | Inr body \<Rightarrow> json_loads body)"

text \<open>The fourteen languages the module constructs at its end, in order.\<close>

definition registrations :: "(string \<times> string option) list" where
  "registrations =
     [(''C'', None), (''C++'', Some ''Cpp''), (''C#'', Some ''CSharp''), (''Fortran'', None),
      (''Go'', None), (''Haskell'', None), (''Java'', None), (''JavaScript'', None),
      (''Lua'', None), (''Python'', None), (''Ruby'', None), (''Rust'', None),
      (''SQL'', None), (''TypeScript'', None)]"

fun construct_all ::
  "tokenize_all_module \<Rightarrow> color_table \<Rightarrow> (string \<times> string option) list
     \<Rightarrow> py_error + (ProgrammingLanguage list \<times> string list)" where
  "construct_all tokenize_all tbl [] = Inr ([], [])"
| "construct_all tokenize_all tbl ((lang_name, tokenize_name) # rest) =
     (case ProgrammingLanguage_init tokenize_all tbl lang_name tokenize_name of
        Inl e \<Rightarrow> Inl e
      | Inr (lang, printed) \<Rightarrow>
          (case construct_all tokenize_all tbl rest of
             Inl e \<Rightarrow> Inl e
           | Inr (langs, printed') \<Rightarrow> Inr (lang # langs, printed @ printed')))"

text \<open>Importing the module: the fetch, then the fourteen constructions.\<close>

definition module_load ::
  "(string \<Rightarrow> py_error + string) \<Rightarrow> (string \<Rightarrow> py_error + color_table)
     \<Rightarrow> tokenize_all_module \<Rightarrow> py_error + (ProgrammingLanguage list \<times> string list)" where
  "module_load urlopen json_loads tokenize_all =
     (case language_colors urlopen json_loads of
        Inl e \<Rightarrow> Inl e
      | Inr tbl \<Rightarrow> construct_all tokenize_all tbl registrations)"

section \<open>The rendering loop of \<^verbatim>\<open>CodeBlock.__init__\<close>\<close>

text \<open>The span the loop builds around a value.\<close>

definition span :: "string \<Rightarrow> string \<Rightarrow> string" where
  \<open>span foreground v = ''<span foreground="'' @ foreground @ ''">'' @ v @ ''</span>''\<close>

text \<open>
  \<^verbatim>\<open>theme.group_matchers[group_count % len(theme.group_matchers)]\<close>: the modulo raises on
  an empty list.
\<close>

definition group_color :: "Theme \<Rightarrow> int \<Rightarrow> py_error + string" where
  "group_color theme group_count =
     (case py_mod group_count (int (length (group_matchers theme))) of
        Inl e \<Rightarrow> Inl e
      | Inr i \<Rightarrow> py_getitem (group_matchers theme) i)"

text \<open>The three substitutions of the last branch, in the order of the source.\<close>

definition safe_value :: "string \<Rightarrow> string" where
  "safe_value v =
     regex_sub (CHR ''>'') ''&gt;'' (regex_sub (CHR ''<'') ''&lt;'' (regex_sub (CHR ''&'') ''&amp;'' v))"

text \<open>
  The body of the inner loop on one token. The state is the list \<^verbatim>\<open>finished\<close> and the
  counter \<^verbatim>\<open>group_count\<close>.
\<close>

definition process_token ::
  "Theme \<Rightarrow> string list \<times> int \<Rightarrow> Token \<Rightarrow> py_error + (string list \<times> int)" where
  "process_token theme st token =
     (case st of (finished, group_count) \<Rightarrow>
        if startswith (type token) ''left'' then
          (case group_color theme group_count of
             Inl e \<Rightarrow> Inl e
           | Inr c \<Rightarrow> Inr (finished @ [span c (value token)], group_count + 1))
        else if startswith (type token) ''right'' then
          (case group_color theme (group_count - 1) of
             Inl e \<Rightarrow> Inl e
           | Inr c \<Rightarrow> Inr (finished @ [span c (value token)], group_count - 1))
        else if type token = ''whitespace'' then
          Inr (finished @ [value token], group_count)
        else
          Inr (finished @ [span (color_for theme token) (safe_value (value token))],
               group_count))"

text \<open>The inner loop \<^verbatim>\<open>for token in tokens\<close>.\<close>

fun process_tokens ::
  "Theme \<Rightarrow> string list \<times> int \<Rightarrow> Token list \<Rightarrow> py_error + (string list \<times> int)" where
  "process_tokens theme st [] = Inr st"
| "process_tokens theme st (token # tokens) =
     (case process_token theme st token of
        Inl e \<Rightarrow> Inl e
      | Inr st' \<Rightarrow> process_tokens theme st' tokens)"

text \<open>
  The outer loop \<^verbatim>\<open>for line in lines\<close>: \<^verbatim>\<open>language.language.tokenize(line)\<close> raises when
  the language holds no tokenizer or when the tokenizer itself raises, and the exception
  leaves the loop; after the tokens of a line the separator is appended.
\<close>

fun process_lines ::
  "ProgrammingLanguage \<Rightarrow> Theme \<Rightarrow> string list \<times> int \<Rightarrow> string list
     \<Rightarrow> py_error + (string list \<times> int)" where
  "process_lines lang theme st [] = Inr st"
| "process_lines lang theme st (line # lines) =
     (case language lang of
        None \<Rightarrow> Inl AttributeError
      | Some tokenizer \<Rightarrow>
          (case tokenize tokenizer line of
             Inl e \<Rightarrow> Inl e
           | Inr tokens \<Rightarrow>
               (case process_tokens theme st tokens of
                  Inl e \<Rightarrow> Inl e
                | Inr (finished, group_count) \<Rightarrow>
                    process_lines lang theme (finished @ [[CHR 0x0D]], group_count) lines)))"

text \<open>
  \<^verbatim>\<open>finished_text\<close>: the branch on \<^verbatim>\<open>language\<close> (an object is true, \<^verbatim>\<open>None\<close> is false).
\<close>

definition finished_text ::
  "string \<Rightarrow> ProgrammingLanguage option \<Rightarrow> Theme \<Rightarrow> py_error + string" where
  "finished_text text lang theme =
     (case lang of
        Some l \<Rightarrow>
          (case process_lines l theme ([], 0) (str_split text (CHR 0x0A)) of
             Inl e \<Rightarrow> Inl e
           | Inr (finished, group_count) \<Rightarrow> Inr (concat finished))
      | None \<Rightarrow> Inr (span ''#FFFFFF'' text))"

text \<open>The string handed to \<^verbatim>\<open>MarkupText\<close>: the finished text inside the span of the font.\<close>

definition font_span :: "string \<Rightarrow> string \<Rightarrow> string" where
  \<open>font_span font body = ''<span font="'' @ font @ ''">'' @ body @ ''</span>''\<close>

definition markup_string ::
  "string \<Rightarrow> ProgrammingLanguage option \<Rightarrow> Theme \<Rightarrow> string \<Rightarrow> py_error + string" where
  "markup_string text lang theme font =
     (case finished_text text lang theme of
        Inl e \<Rightarrow> Inl e
      | Inr ft \<Rightarrow> Inr (font_span font ft))"

section \<open>Notions the properties are stated with\<close>

text \<open>Bracket tokens, as the loop tells them apart, and the net depth of a token list.\<close>

definition is_left :: "Token \<Rightarrow> bool" where
  "is_left token = startswith (type token) ''left''"

definition is_right :: "Token \<Rightarrow> bool" where
  "is_right token = startswith (type token) ''right''"

definition net_depth :: "Token list \<Rightarrow> int" where
  "net_depth tokens =
     int (length (filter is_left tokens)) - int (length (filter is_right tokens))"

text \<open>The entity form of a character of the markup.\<close>

definition entity :: "char \<Rightarrow> string" where
  "entity c =
     (if c = CHR ''&'' then ''&amp;''
      else if c = CHR ''<'' then ''&lt;''
      else if c = CHR ''>'' then ''&gt;''
      else [c])"

section \<open>Sample inputs\<close>

text \<open>
  A tokenizer to run the loop on concrete text, standing for one of the library: one
  token for each character, and an exception on a line that holds a tab.
\<close>

definition char_token :: "char \<Rightarrow> Token" where
  "char_token c =
     \<lparr>type =
        (if c = CHR ''('' then ''left parentheses''
         else if c = CHR '')'' then ''right parentheses''
         else if c = CHR ''['' then ''left bracket''
         else if c = CHR '']'' then ''right bracket''
         else if c = CHR '' '' then ''whitespace''
         else if c = CHR ''<'' \<or> c = CHR ''>'' \<or> c = CHR ''&'' then ''symbol''
         else ''identifier''),
      value = [c]\<rparr>"

definition char_tokenize :: "string \<Rightarrow> py_error + Token list" where
  "char_tokenize line =
     (if CHR 0x09 \<in> set line then Inl LibraryError else Inr (map char_token line))"

definition sample_tokenizer :: TokenizableLanguage where
  "sample_tokenizer = \<lparr>tokenize = char_tokenize\<rparr>"

definition sample_language :: ProgrammingLanguage where
  "sample_language =
     \<lparr>name = ''Sample'', color = Some ''#000000'', language = Some sample_tokenizer\<rparr>"

text \<open>
  A network that is down and one that serves the document, a parser for that document,
  the table it yields and a module \<^verbatim>\<open>tokenize_all\<close> with the fourteen languages.
\<close>

definition offline :: "string \<Rightarrow> py_error + string" where
  "offline url = Inl URLError"

definition online :: "string \<Rightarrow> py_error + string" where
  "online url = (if url = colors_url then Inr ''colors.json'' else Inl URLError)"

definition sample_colors :: color_table where
  "sample_colors lang_name =
     (if lang_name \<in> set (map fst registrations)
      then Some [''color'' \<mapsto> Some ''#3572A5'', ''url'' \<mapsto> Some ''https://github.com/trending'']
      else if lang_name = ''Text''
      then Some [''color'' \<mapsto> None, ''url'' \<mapsto> Some ''https://github.com/trending'']
      else None)"

definition sample_json_loads :: "string \<Rightarrow> py_error + color_table" where
  "sample_json_loads body =
     (if body = ''colors.json'' then Inr sample_colors else Inl JSONDecodeError)"

definition sample_module :: tokenize_all_module where
  "sample_module attr =
     (if attr \<in> set [''C'', ''Cpp'', ''CSharp'', ''Fortran'', ''Go'', ''Haskell'', ''Java'',
                      ''JavaScript'', ''Lua'', ''Python'', ''Ruby'', ''Rust'', ''SQL'',
                      ''TypeScript'']
      then Some (Some sample_tokenizer)
      else None)"

section \<open>Theme.color_for\<close>

lemma color_items_unlisted:
  "\<forall>(key, val) \<in> set items. Str (type token) \<notin> set val \<Longrightarrow> color_items items token = ''#FFFFFF''"
  by (induction items) auto

lemma color_items_listed:
  "\<exists>(key, val) \<in> set items. Str (type token) \<in> set val \<Longrightarrow>
   \<exists>val. (color_items items token, val) \<in> set items \<and> Str (type token) \<in> set val"
proof (induction items)
  case Nil
  then show ?case by simp
next
  case (Cons item items)
  obtain key val where item: "item = (key, val)" by (cases item)
  show ?case
  proof (cases "Str (type token) \<in> set val")
    case True
    then show ?thesis using item by auto
  next
    case False
    with Cons.prems item have "\<exists>(key, val) \<in> set items. Str (type token) \<in> set val"
      by auto
    from Cons.IH [OF this] show ?thesis using item False by auto
  qed
qed

text \<open>
  Claim C5. For every theme and token: when no color list of the theme contains the
  token's type, \<open>color_for\<close> returns the default \<^verbatim>\<open>"#FFFFFF"\<close>; when some list contains
  it, \<open>color_for\<close> returns a color of the theme whose list contains the type.
\<close>

theorem color_for_default_or_listed:
  "((\<forall>(key, val) \<in> set (colors self). Str (type token) \<notin> set val)
       \<longrightarrow> color_for self token = ''#FFFFFF'') \<and>
   ((\<exists>(key, val) \<in> set (colors self). Str (type token) \<in> set val)
       \<longrightarrow> (\<exists>val. (color_for self token, val) \<in> set (colors self) \<and> Str (type token) \<in> set val))"
  unfolding color_for_def using color_items_unlisted color_items_listed by blast

theorem color_for_default_or_listed_witness:
  "color_for (OneDark ''#888888'') \<lparr>type = ''whitespace'', value = '' ''\<rparr> = ''#FFFFFF'' \<and>
   (\<exists>(key, val) \<in> set (colors (OneDark ''#888888'')).
       Str (type \<lparr>type = ''keyword'', value = ''def''\<rparr>) \<in> set val) \<and>
   (\<exists>val. (color_for (OneDark ''#888888'') \<lparr>type = ''keyword'', value = ''def''\<rparr>, val)
            \<in> set (colors (OneDark ''#888888'')) \<and>
          Str (type \<lparr>type = ''keyword'', value = ''def''\<rparr>) \<in> set val)"
proof -
  have a: "\<forall>(key, val) \<in> set (colors (OneDark ''#888888'')).
       Str (type \<lparr>type = ''whitespace'', value = '' ''\<rparr>) \<notin> set val"
    by (simp add: OneDark_def)
  have b: "\<exists>(key, val) \<in> set (colors (OneDark ''#888888'')).
       Str (type \<lparr>type = ''keyword'', value = ''def''\<rparr>) \<in> set val"
    by (simp add: OneDark_def)
  from a b
    color_for_default_or_listed [of "OneDark ''#888888''" "\<lparr>type = ''whitespace'', value = '' ''\<rparr>"]
    color_for_default_or_listed [of "OneDark ''#888888''" "\<lparr>type = ''keyword'', value = ''def''\<rparr>"]
  show ?thesis by blast
qed

section \<open>One step of the rendering loop\<close>

lemma left_not_right: "startswith s ''left'' \<Longrightarrow> \<not> startswith s ''right''"
  by (cases s) (auto simp: startswith_def)

lemma py_getitem_in_range:
  "0 \<le> i \<Longrightarrow> i < int (length xs) \<Longrightarrow> py_getitem xs i = Inr (xs ! nat i)"
  by (simp add: py_getitem_def Let_def)

lemma group_color_nonempty:
  assumes "group_matchers theme \<noteq> []"
  shows "group_color theme g =
           Inr (group_matchers theme ! nat (g mod int (length (group_matchers theme))))"
proof -
  let ?n = "int (length (group_matchers theme))"
  from assms have n: "0 < ?n" by simp
  then have "0 \<le> g mod ?n" and "g mod ?n < ?n" by simp_all
  then have "py_getitem (group_matchers theme) (g mod ?n) =
               Inr (group_matchers theme ! nat (g mod ?n))"
    by (rule py_getitem_in_range)
  moreover from n have "py_mod g ?n = Inr (g mod ?n)" by (simp add: py_mod_def)
  ultimately show ?thesis by (simp add: group_color_def)
qed

lemma group_color_empty: "group_matchers theme = [] \<Longrightarrow> group_color theme g = Inl ZeroDivisionError"
  by (simp add: group_color_def py_mod_def)

lemma process_token_left:
  assumes "startswith (type token) ''left''" and "group_matchers theme \<noteq> []"
  shows "process_token theme (finished, g) token =
           Inr (finished @ [span (group_matchers theme ! nat (g mod int (length (group_matchers theme))))
                                 (value token)], g + 1)"
  using assms by (simp add: process_token_def group_color_nonempty)

lemma process_token_right:
  assumes "startswith (type token) ''right''" and "group_matchers theme \<noteq> []"
  shows "process_token theme (finished, g) token =
           Inr (finished @ [span (group_matchers theme ! nat ((g - 1) mod int (length (group_matchers theme))))
                                 (value token)], g - 1)"
  using assms left_not_right [of "type token"] by (auto simp add: process_token_def group_color_nonempty)

lemma process_token_step:
  assumes "process_token theme (finished, g) token = Inr (finished', g')"
  shows "g' = g + net_depth [token] \<and> (\<exists>out. finished' = finished @ [out])"
  using assms left_not_right [of "type token"]
  by (auto simp: process_token_def net_depth_def is_left_def is_right_def
           split: if_splits sum.splits)

lemma process_token_total:
  assumes "group_matchers theme \<noteq> []"
  shows "\<exists>finished' g'. process_token theme (finished, g) token = Inr (finished', g')"
  using assms by (simp add: process_token_def group_color_nonempty)

lemma process_token_other:
  assumes "\<not> startswith (type token) ''left''" and "\<not> startswith (type token) ''right''"
  shows "process_token theme (finished, g) token =
           Inr (finished @
                  [if type token = ''whitespace'' then value token
                   else span (color_for theme token) (safe_value (value token))], g)"
  using assms by (simp add: process_token_def)

section \<open>The loops over tokens and lines\<close>

lemma process_tokens_append:
  "process_tokens theme st (xs @ ys) =
     (case process_tokens theme st xs of Inl e \<Rightarrow> Inl e | Inr st' \<Rightarrow> process_tokens theme st' ys)"
  by (induction xs arbitrary: st) (auto split: sum.splits)

lemma net_depth_Cons: "net_depth (t # ts) = net_depth [t] + net_depth ts"
  by (simp add: net_depth_def)

lemma net_depth_append: "net_depth (xs @ ys) = net_depth xs + net_depth ys"
  by (simp add: net_depth_def)

lemma process_tokens_result:
  "process_tokens theme (finished, g) tokens = Inr (finished', g') \<Longrightarrow>
   g' = g + net_depth tokens \<and> (\<exists>outs. finished' = finished @ outs \<and> length outs = length tokens)"
proof (induction tokens arbitrary: finished g)
  case Nil
  then show ?case by (simp add: net_depth_def)
next
  case (Cons t ts)
  from Cons.prems obtain f1 g1 where
    step: "process_token theme (finished, g) t = Inr (f1, g1)" and
    rest: "process_tokens theme (f1, g1) ts = Inr (finished', g')"
    by (auto split: sum.splits)
  from process_token_step [OF step] obtain out where
    g1: "g1 = g + net_depth [t]" and f1: "f1 = finished @ [out]" by blast
  from Cons.IH [OF rest] obtain outs where
    g': "g' = g1 + net_depth ts" and f': "finished' = f1 @ outs" and len: "length outs = length ts"
    by blast
  have "finished' = finished @ (out # outs)" using f1 f' by simp
  moreover have "length (out # outs) = length (t # ts)" using len by simp
  moreover have "g' = g + net_depth (t # ts)" using g1 g' net_depth_Cons [of t ts] by simp
  ultimately show ?case by blast
qed

lemma process_tokens_total:
  "group_matchers theme \<noteq> [] \<Longrightarrow>
   \<exists>finished' g'. process_tokens theme (finished, g) tokens = Inr (finished', g')"
proof (induction tokens arbitrary: finished g)
  case Nil
  then show ?case by simp
next
  case (Cons t ts)
  from process_token_total [OF Cons.prems] obtain f1 g1 where
    "process_token theme (finished, g) t = Inr (f1, g1)" by blast
  with Cons.IH [OF Cons.prems, of f1 g1] show ?case by simp
qed

lemma process_tokens_from:
  assumes "group_matchers theme \<noteq> []"
  shows "\<exists>outs. process_tokens theme (finished, g) tokens =
                  Inr (finished @ outs, g + net_depth tokens) \<and> length outs = length tokens"
proof -
  from process_tokens_total [OF assms] obtain f1 g1 where
    r: "process_tokens theme (finished, g) tokens = Inr (f1, g1)" by blast
  from process_tokens_result [OF r] r show ?thesis by auto
qed

lemma process_token_prefix:
  "process_token theme (finished, g) token =
     (case process_token theme ([], g) token of
        Inl e \<Rightarrow> Inl e
      | Inr (outs, g') \<Rightarrow> Inr (finished @ outs, g'))"
  by (simp add: process_token_def split: sum.splits)

lemma process_tokens_prefix:
  "process_tokens theme (finished, g) tokens =
     (case process_tokens theme ([], g) tokens of
        Inl e \<Rightarrow> Inl e
      | Inr (outs, g') \<Rightarrow> Inr (finished @ outs, g'))"
proof (induction tokens arbitrary: finished g)
  case Nil
  then show ?case by simp
next
  case (Cons t ts)
  show ?case
  proof (cases "process_token theme ([], g) t")
    case (Inl e)
    then show ?thesis using process_token_prefix [of theme finished g t] by simp
  next
    case (Inr st)
    obtain o1 g1 where st: "st = (o1, g1)" by (cases st)
    have a: "process_token theme (finished, g) t = Inr (finished @ o1, g1)"
      using process_token_prefix [of theme finished g t] Inr st by simp
    show ?thesis
      using a Inr st Cons.IH [of "finished @ o1" g1] Cons.IH [of o1 g1]
      by (simp split: sum.splits)
  qed
qed

lemma process_lines_chunks:
  assumes "language lang = Some tokenizer"
  shows "process_lines lang theme (finished, g) lines = Inr (finished', g') \<Longrightarrow>
   \<exists>tokss chunks.
      map (tokenize tokenizer) lines = map Inr tokss \<and>
      g' = g + net_depth (concat tokss) \<and>
      finished' = finished @ concat (map (\<lambda>chunk. chunk @ [[CHR 0x0D]]) chunks) \<and>
      list_all2 (\<lambda>chunk tokens. \<exists>d d'. process_tokens theme ([], d) tokens = Inr (chunk, d'))
                chunks tokss"
proof (induction lines arbitrary: finished g)
  case Nil
  then show ?case by (simp add: net_depth_def)
next
  case (Cons line lines)
  from Cons.prems assms obtain tokens f1 g1 where
    tk: "tokenize tokenizer line = Inr tokens" and
    toks: "process_tokens theme (finished, g) tokens = Inr (f1, g1)" and
    rest: "process_lines lang theme (f1 @ [[CHR 0x0D]], g1) lines = Inr (finished', g')"
    by (auto split: sum.splits)
  from process_tokens_result [OF toks] have g1: "g1 = g + net_depth tokens" by blast
  from toks process_tokens_prefix [of theme finished g tokens]
  obtain outs where
    outs: "process_tokens theme ([], g) tokens = Inr (outs, g1)" and
    f1: "f1 = finished @ outs"
    by (auto split: sum.splits)
  from Cons.IH [OF rest] obtain tokss chunks where
    m: "map (tokenize tokenizer) lines = map Inr tokss" and
    g': "g' = g1 + net_depth (concat tokss)" and
    f': "finished' = (f1 @ [[CHR 0x0D]]) @ concat (map (\<lambda>chunk. chunk @ [[CHR 0x0D]]) chunks)" and
    all: "list_all2 (\<lambda>chunk tokens. \<exists>d d'. process_tokens theme ([], d) tokens = Inr (chunk, d'))
            chunks tokss"
    by blast
  have "map (tokenize tokenizer) (line # lines) = map Inr (tokens # tokss)"
    using tk m by simp
  moreover have "g' = g + net_depth (concat (tokens # tokss))"
    using g1 g' by (simp add: net_depth_append)
  moreover have "finished' = finished @ concat (map (\<lambda>chunk. chunk @ [[CHR 0x0D]]) (outs # chunks))"
    using f1 f' by simp
  moreover have "list_all2 (\<lambda>chunk tokens. \<exists>d d'. process_tokens theme ([], d) tokens
                                              = Inr (chunk, d'))
                   (outs # chunks) (tokens # tokss)"
    using outs all by auto
  ultimately show ?case by blast
qed

lemma process_lines_total:
  assumes "language lang = Some tokenizer" and "group_matchers theme \<noteq> []"
  shows "map (tokenize tokenizer) lines = map Inr tokss \<Longrightarrow>
         \<exists>finished' g'. process_lines lang theme (finished, g) lines = Inr (finished', g')"
proof (induction lines arbitrary: finished g tokss)
  case Nil
  then show ?case by simp
next
  case (Cons line lines)
  from Cons.prems obtain tokens rest where
    tk: "tokenize tokenizer line = Inr tokens" and
    m: "map (tokenize tokenizer) lines = map Inr rest"
    by (cases tokss) auto
  from process_tokens_total [OF assms(2)] obtain f1 g1 where
    "process_tokens theme (finished, g) tokens = Inr (f1, g1)" by blast
  with Cons.IH [OF m, of "f1 @ [[CHR 0x0D]]" g1] assms(1) tk show ?case by simp
qed

lemma process_lines_raises:
  assumes "language lang = Some tokenizer" and "tokenize tokenizer line = Inl e"
  shows "process_lines lang theme st (line # lines) = Inl e"
  using assms by simp

lemma str_split_nonempty: "str_split s sep \<noteq> []"
  by (induction s) (auto split: list.splits)

lemma length_str_split:
  "length (str_split s sep) = Suc (length (filter (\<lambda>c. c = sep) s))"
  using str_split_nonempty by (induction s) (auto split: list.splits)

lemmas run_defs = process_token_def startswith_def group_color_def py_mod_def py_getitem_def
  OneDark_def char_token_def color_for_def

section \<open>The bracket-depth counter\<close>

text \<open>
  Claim C1. The counter goes up by one on a token whose type starts with \<^verbatim>\<open>left\<close> and
  down by one on a token whose type starts with \<^verbatim>\<open>right\<close>. Whenever the inner loop
  returns, the counter is the one before the line plus the number of left tokens minus the
  number of right tokens; over several lines it is the counter at the start plus the net
  depth of all their tokens, so it is carried from line to line and never reset. With a
  non-empty list of group colors the loop does return.
\<close>

theorem group_count_tracks_brackets:
  "(process_tokens theme (finished, g) tokens = Inr (finished', g') \<longrightarrow>
      g' = g + int (length (filter is_left tokens)) - int (length (filter is_right tokens))) \<and>
   (language lang = Some tokenizer \<and>
    process_lines lang theme (finished, g) lines = Inr (finished'', g'') \<longrightarrow>
      (\<exists>tokss. map (tokenize tokenizer) lines = map Inr tokss \<and>
               g'' = g + net_depth (concat tokss))) \<and>
   (group_matchers theme \<noteq> [] \<longrightarrow>
      (\<exists>out. process_tokens theme (finished, g) tokens = Inr (out, g + net_depth tokens)) \<and>
      (is_left token \<longrightarrow> (\<exists>out. process_token theme (finished, g) token = Inr (out, g + 1))) \<and>
      (is_right token \<longrightarrow> (\<exists>out. process_token theme (finished, g) token = Inr (out, g - 1))))"
proof (intro conjI impI)
  assume "process_tokens theme (finished, g) tokens = Inr (finished', g')"
  from process_tokens_result [OF this]
  show "g' = g + int (length (filter is_left tokens)) - int (length (filter is_right tokens))"
    by (simp add: net_depth_def)
next
  assume "language lang = Some tokenizer \<and>
    process_lines lang theme (finished, g) lines = Inr (finished'', g'')"
  then have "language lang = Some tokenizer"
    and "process_lines lang theme (finished, g) lines = Inr (finished'', g'')" by simp_all
  from process_lines_chunks [OF this]
  show "\<exists>tokss. map (tokenize tokenizer) lines = map Inr tokss \<and>
               g'' = g + net_depth (concat tokss)"
    by blast
next
  assume ne: "group_matchers theme \<noteq> []"
  from process_tokens_total [OF ne] obtain f1 g1 where
    r: "process_tokens theme (finished, g) tokens = Inr (f1, g1)" by blast
  from process_tokens_result [OF r] have "g1 = g + net_depth tokens" by blast
  with r show "\<exists>out. process_tokens theme (finished, g) tokens = Inr (out, g + net_depth tokens)"
    by blast
next
  assume "group_matchers theme \<noteq> []" and "is_left token"
  then show "\<exists>out. process_token theme (finished, g) token = Inr (out, g + 1)"
    by (simp add: is_left_def process_token_left)
next
  assume "group_matchers theme \<noteq> []" and "is_right token"
  then show "\<exists>out. process_token theme (finished, g) token = Inr (out, g - 1)"
    by (simp add: is_right_def process_token_right)
qed

theorem group_count_tracks_brackets_witness:
  "net_depth (map char_token ''(a[b)]'') = 0 \<and>
   process_tokens (OneDark ''#888888'') ([], 5) (map char_token ''(a[b)]'') =
     Inr ([span ''#56B6C2'' ''('', span ''#E06C75'' ''a'', span ''#D19A66'' ''['',
           span ''#E06C75'' ''b'', span ''#D19A66'' '')'', span ''#56B6C2'' '']''], 5) \<and>
   (\<exists>out. process_token (OneDark ''#888888'') ([], 5) (char_token (CHR ''('')) = Inr (out, 6)) \<and>
   (\<exists>out. process_token (OneDark ''#888888'') ([], 5) (char_token (CHR '')'')) = Inr (out, 4)) \<and>
   net_depth (concat (map (map char_token) [''((a'', ''b)''])) = 1 \<and>
   process_lines sample_language (OneDark ''#888888'') ([], 0) [''((a'', ''b)''] =
     Inr ([span ''#D19A66'' ''('', span ''#C678DD'' ''('', span ''#E06C75'' ''a'', [CHR 0x0D],
           span ''#E06C75'' ''b'', span ''#C678DD'' '')'', [CHR 0x0D]], 1)"
proof -
  have ne: "group_matchers (OneDark ''#888888'') \<noteq> []" by (simp add: OneDark_def)
  have lang: "language sample_language = Some sample_tokenizer"
    by (simp add: sample_language_def)
  have l: "is_left (char_token (CHR ''(''))"
    by (simp add: is_left_def char_token_def startswith_def)
  have r: "is_right (char_token (CHR '')''))"
    by (simp add: is_right_def char_token_def startswith_def)
  have net: "net_depth (map char_token ''(a[b)]'') = 0"
    and net_lines: "net_depth (concat (map (map char_token) [''((a'', ''b)''])) = 1"
    and count: "int (length (filter is_left (map char_token ''(a[b)]''))) = 2"
      "int (length (filter is_right (map char_token ''(a[b)]''))) = 2"
    by (simp_all add: net_depth_def is_left_def is_right_def char_token_def startswith_def)
  have run: "process_tokens (OneDark ''#888888'') ([], 5) (map char_token ''(a[b)]'') =
     Inr ([span ''#56B6C2'' ''('', span ''#E06C75'' ''a'', span ''#D19A66'' ''['',
           span ''#E06C75'' ''b'', span ''#D19A66'' '')'', span ''#56B6C2'' '']''], 5)"
    by (simp add: run_defs safe_value_def regex_sub_def)
  have lines: "process_lines sample_language (OneDark ''#888888'') ([], 0) [''((a'', ''b)''] =
     Inr ([span ''#D19A66'' ''('', span ''#C678DD'' ''('', span ''#E06C75'' ''a'', [CHR 0x0D],
           span ''#E06C75'' ''b'', span ''#C678DD'' '')'', [CHR 0x0D]], 1)"
    by (simp add: sample_language_def sample_tokenizer_def char_tokenize_def run_defs
          safe_value_def regex_sub_def)
  from group_count_tracks_brackets
         [where theme = "OneDark ''#888888''" and finished = "[]" and g = 5
            and tokens = "map char_token ''(a[b)]''"
            and finished' = "[span ''#56B6C2'' ''('', span ''#E06C75'' ''a'', span ''#D19A66'' ''['',
                              span ''#E06C75'' ''b'', span ''#D19A66'' '')'', span ''#56B6C2'' '']'']"
            and g' = 5 and token = "char_token (CHR ''('')"]
       group_count_tracks_brackets
         [where theme = "OneDark ''#888888''" and finished = "[]" and g = 5
            and token = "char_token (CHR '')'')"]
       group_count_tracks_brackets
         [where theme = "OneDark ''#888888''" and finished = "[]" and g = 0
            and lang = sample_language and tokenizer = sample_tokenizer
            and lines = "[''((a'', ''b)'']"
            and finished'' = "[span ''#D19A66'' ''('', span ''#C678DD'' ''('', span ''#E06C75'' ''a'',
                               [CHR 0x0D], span ''#E06C75'' ''b'', span ''#C678DD'' '')'', [CHR 0x0D]]"
            and g'' = 1]
       ne lang l r run lines net net_lines
  show ?thesis by simp
qed

section \<open>Group colors\<close>

text \<open>
  Claim C2. With a non-empty list of group colors, a token whose type starts with
  \<^verbatim>\<open>left\<close> is wrapped in a span whose foreground is \<^verbatim>\<open>group_matchers[d % N]\<close>, \<open>d\<close> the
  counter just before the token. In particular a stream of two openers, one other token
  and two closers (as \<^verbatim>\<open>"((x))"\<close>), from depth 0, gives the openers the colors of indices
  \<open>0 % N\<close> and \<open>1 % N\<close>, and ends at depth 0. The markup is written out in full.
\<close>

theorem left_token_group_color:
  assumes "group_matchers theme \<noteq> []"
  shows "(startswith (type token) ''left'' \<longrightarrow>
            process_token theme (finished, d) token =
              Inr (finished @
                     [''<span foreground='' @ [CHR 0x22] @ (group_matchers theme ! nat (d mod int (length (group_matchers theme)))) @ [CHR 0x22] @ ''>'' @ value token @ ''</span>''],
                   d + 1)) \<and>
         (startswith (type l1) ''left'' \<and> startswith (type l2) ''left'' \<and>
          \<not> startswith (type x) ''left'' \<and> \<not> startswith (type x) ''right'' \<and>
          startswith (type r1) ''right'' \<and> startswith (type r2) ''right'' \<longrightarrow>
            process_tokens theme ([], 0) [l1, l2, x, r1, r2] =
              Inr ([''<span foreground='' @ [CHR 0x22] @ (group_matchers theme ! nat (0 mod int (length (group_matchers theme)))) @ [CHR 0x22] @ ''>'' @ value l1 @ ''</span>'',
                    ''<span foreground='' @ [CHR 0x22] @ (group_matchers theme ! nat (1 mod int (length (group_matchers theme)))) @ [CHR 0x22] @ ''>'' @ value l2 @ ''</span>'',
                    (if type x = ''whitespace'' then value x
                     else ''<span foreground='' @ [CHR 0x22] @ color_for theme x @ [CHR 0x22] @ ''>'' @ safe_value (value x) @ ''</span>''),
                    ''<span foreground='' @ [CHR 0x22] @ (group_matchers theme ! nat (1 mod int (length (group_matchers theme)))) @ [CHR 0x22] @ ''>'' @ value r1 @ ''</span>'',
                    ''<span foreground='' @ [CHR 0x22] @ (group_matchers theme ! nat (0 mod int (length (group_matchers theme)))) @ [CHR 0x22] @ ''>'' @ value r2 @ ''</span>''], 0))"
proof (intro conjI impI)
  assume "startswith (type token) ''left''"
  then have "process_token theme (finished, d) token =
               Inr (finished @ [span (group_matchers theme ! nat (d mod int (length (group_matchers theme)))) (value token)], d + 1)"
    using assms by (rule process_token_left)
  then show "process_token theme (finished, d) token =
              Inr (finished @
                     [''<span foreground='' @ [CHR 0x22] @ (group_matchers theme ! nat (d mod int (length (group_matchers theme)))) @ [CHR 0x22] @ ''>'' @ value token @ ''</span>''],
                   d + 1)"
    by (simp add: span_def)
next
  assume types:
    "startswith (type l1) ''left'' \<and> startswith (type l2) ''left'' \<and>
     \<not> startswith (type x) ''left'' \<and> \<not> startswith (type x) ''right'' \<and>
     startswith (type r1) ''right'' \<and> startswith (type r2) ''right''"
  then have s1: "process_token theme ([], 0) l1 =
      Inr ([span (group_matchers theme ! nat (0 mod int (length (group_matchers theme)))) (value l1)], 1)"
    using process_token_left [OF _ assms, of l1 "[]" 0] by simp
  from types have
    s2: "\<And>finished g. process_token theme (finished, g) l2 =
           Inr (finished @ [span (group_matchers theme ! nat (g mod int (length (group_matchers theme)))) (value l2)], g + 1)" and
    s3: "\<And>finished g. process_token theme (finished, g) x =
           Inr (finished @
                  [if type x = ''whitespace'' then value x
                   else span (color_for theme x) (safe_value (value x))], g)" and
    s4: "\<And>finished g. process_token theme (finished, g) r1 =
           Inr (finished @ [span (group_matchers theme ! nat ((g - 1) mod int (length (group_matchers theme)))) (value r1)], g - 1)" and
    s5: "\<And>finished g. process_token theme (finished, g) r2 =
           Inr (finished @ [span (group_matchers theme ! nat ((g - 1) mod int (length (group_matchers theme)))) (value r2)], g - 1)"
    using assms by (simp_all add: process_token_left process_token_right process_token_other)
  show "process_tokens theme ([], 0) [l1, l2, x, r1, r2] =
              Inr ([''<span foreground='' @ [CHR 0x22] @ (group_matchers theme ! nat (0 mod int (length (group_matchers theme)))) @ [CHR 0x22] @ ''>'' @ value l1 @ ''</span>'',
                    ''<span foreground='' @ [CHR 0x22] @ (group_matchers theme ! nat (1 mod int (length (group_matchers theme)))) @ [CHR 0x22] @ ''>'' @ value l2 @ ''</span>'',
                    (if type x = ''whitespace'' then value x
                     else ''<span foreground='' @ [CHR 0x22] @ color_for theme x @ [CHR 0x22] @ ''>'' @ safe_value (value x) @ ''</span>''),
                    ''<span foreground='' @ [CHR 0x22] @ (group_matchers theme ! nat (1 mod int (length (group_matchers theme)))) @ [CHR 0x22] @ ''>'' @ value r1 @ ''</span>'',
                    ''<span foreground='' @ [CHR 0x22] @ (group_matchers theme ! nat (0 mod int (length (group_matchers theme)))) @ [CHR 0x22] @ ''>'' @ value r2 @ ''</span>''], 0)"
    using s1 s2 s3 s4 s5 by (simp add: span_def)
qed

theorem left_token_group_color_witness:
  "process_token (OneDark ''#888888'') ([], 4) (char_token (CHR ''['')) =
     Inr ([''<span foreground='' @ [CHR 0x22] @ ''#C678DD'' @ [CHR 0x22] @ ''>[</span>''], 5) \<and>
   process_tokens (OneDark ''#888888'') ([], 0) (map char_token ''((x))'') =
     Inr ([''<span foreground='' @ [CHR 0x22] @ ''#D19A66'' @ [CHR 0x22] @ ''>(</span>'',
           ''<span foreground='' @ [CHR 0x22] @ ''#C678DD'' @ [CHR 0x22] @ ''>(</span>'',
           ''<span foreground='' @ [CHR 0x22] @ ''#E06C75'' @ [CHR 0x22] @ ''>x</span>'',
           ''<span foreground='' @ [CHR 0x22] @ ''#C678DD'' @ [CHR 0x22] @ ''>)</span>'',
           ''<span foreground='' @ [CHR 0x22] @ ''#D19A66'' @ [CHR 0x22] @ ''>)</span>''], 0)"
proof -
  have types:
    "startswith (type (char_token (CHR ''[''))) ''left''"
    "startswith (type (char_token (CHR ''(''))) ''left''"
    "\<not> startswith (type (char_token (CHR ''x''))) ''left''"
    "\<not> startswith (type (char_token (CHR ''x''))) ''right''"
    "startswith (type (char_token (CHR '')''))) ''right''"
    by (simp_all add: char_token_def startswith_def)
  have ne: "group_matchers (OneDark ''#888888'') \<noteq> []" by (simp add: OneDark_def)
  from left_token_group_color
         [OF ne, of "char_token (CHR ''['')" "[]" 4 "char_token (CHR ''('')"
             "char_token (CHR ''('')" "char_token (CHR ''x'')" "char_token (CHR '')'')"
             "char_token (CHR '')'')"] types
  show ?thesis
    by (simp add: OneDark_def char_token_def color_for_def safe_value_def regex_sub_def)
qed

text \<open>
  Claim C9. With a non-empty list of group colors: when the tokens between a left token
  and a right token have net depth 0, as they have between a bracket and the one that
  closes it, both are wrapped in a span of the same foreground, the group color of the
  depth at which the left token is met. The markup of both spans is written out in full.
\<close>

theorem matching_right_same_color:
  assumes "group_matchers theme \<noteq> []"
    and "startswith (type l) ''left''" and "startswith (type r) ''right''"
    and "net_depth mid = 0"
  shows "\<exists>before between after g'.
           process_tokens theme (finished, g) (pre @ l # mid @ r # post) =
             Inr (finished @ before @
                    (''<span foreground='' @ [CHR 0x22] @ (group_matchers theme ! nat ((g + net_depth pre) mod int (length (group_matchers theme)))) @ [CHR 0x22] @ ''>'' @ value l @ ''</span>'') #
                    between @
                    (''<span foreground='' @ [CHR 0x22] @ (group_matchers theme ! nat ((g + net_depth pre) mod int (length (group_matchers theme)))) @ [CHR 0x22] @ ''>'' @ value r @ ''</span>'') #
                    after, g') \<and>
           length before = length pre \<and> length between = length mid \<and>
           length after = length post"
proof -
  let ?c = "group_matchers theme !
              nat ((g + net_depth pre) mod int (length (group_matchers theme)))"
  let ?d = "g + net_depth pre"
  from process_tokens_from [OF assms(1), of finished g pre] obtain before where
    p1: "process_tokens theme (finished, g) pre = Inr (finished @ before, ?d)" and
    l1: "length before = length pre" by blast
  let ?f2 = "(finished @ before) @ [span ?c (value l)]"
  have p2: "process_token theme (finished @ before, ?d) l = Inr (?f2, ?d + 1)"
    by (rule process_token_left [OF assms(2) assms(1)])
  from process_tokens_from [OF assms(1), of ?f2 "?d + 1" mid] assms(4) obtain between where
    p3: "process_tokens theme (?f2, ?d + 1) mid = Inr (?f2 @ between, ?d + 1)" and
    l3: "length between = length mid" by auto
  let ?f4 = "(?f2 @ between) @ [span ?c (value r)]"
  have p4: "process_token theme (?f2 @ between, ?d + 1) r = Inr (?f4, ?d)"
    using process_token_right [OF assms(3) assms(1), of "?f2 @ between" "?d + 1"] by simp
  from process_tokens_from [OF assms(1), of ?f4 ?d post] obtain after where
    p5: "process_tokens theme (?f4, ?d) post = Inr (?f4 @ after, ?d + net_depth post)" and
    l5: "length after = length post" by blast
  have "process_tokens theme (finished, g) (pre @ l # mid @ r # post) =
          Inr (?f4 @ after, ?d + net_depth post)"
    using p1 p2 p3 p4 p5 by (simp add: process_tokens_append)
  then have "process_tokens theme (finished, g) (pre @ l # mid @ r # post) =
          Inr (finished @ before @
                 (''<span foreground='' @ [CHR 0x22] @ ?c @ [CHR 0x22] @ ''>'' @ value l @ ''</span>'') #
                 between @
                 (''<span foreground='' @ [CHR 0x22] @ ?c @ [CHR 0x22] @ ''>'' @ value r @ ''</span>'') #
                 after, ?d + net_depth post)"
    by (simp add: span_def)
  with l1 l3 l5 show ?thesis by blast
qed

theorem matching_right_same_color_witness:
  "net_depth (map char_token ''x[a]'') = 0 \<and>
   process_tokens (OneDark ''#888888'') ([], 0) (map char_token ''f(x[a])y'') =
     Inr ([''<span foreground='' @ [CHR 0x22] @ ''#E06C75'' @ [CHR 0x22] @ ''>f</span>'',
           ''<span foreground='' @ [CHR 0x22] @ ''#D19A66'' @ [CHR 0x22] @ ''>(</span>'',
           ''<span foreground='' @ [CHR 0x22] @ ''#E06C75'' @ [CHR 0x22] @ ''>x</span>'',
           ''<span foreground='' @ [CHR 0x22] @ ''#C678DD'' @ [CHR 0x22] @ ''>[</span>'',
           ''<span foreground='' @ [CHR 0x22] @ ''#E06C75'' @ [CHR 0x22] @ ''>a</span>'',
           ''<span foreground='' @ [CHR 0x22] @ ''#C678DD'' @ [CHR 0x22] @ ''>]</span>'',
           ''<span foreground='' @ [CHR 0x22] @ ''#D19A66'' @ [CHR 0x22] @ ''>)</span>'',
           ''<span foreground='' @ [CHR 0x22] @ ''#E06C75'' @ [CHR 0x22] @ ''>y</span>''], 0)"
proof -
  have ne: "group_matchers (OneDark ''#888888'') \<noteq> []" by (simp add: OneDark_def)
  have l: "startswith (type (char_token (CHR ''(''))) ''left''"
    and r: "startswith (type (char_token (CHR '')''))) ''right''"
    by (simp_all add: char_token_def startswith_def)
  have net: "net_depth (map char_token ''x[a]'') = 0"
    by (simp add: net_depth_def is_left_def is_right_def char_token_def startswith_def)
  have run: "process_tokens (OneDark ''#888888'') ([], 0) (map char_token ''f(x[a])y'') =
     Inr ([''<span foreground='' @ [CHR 0x22] @ ''#E06C75'' @ [CHR 0x22] @ ''>f</span>'',
           ''<span foreground='' @ [CHR 0x22] @ ''#D19A66'' @ [CHR 0x22] @ ''>(</span>'',
           ''<span foreground='' @ [CHR 0x22] @ ''#E06C75'' @ [CHR 0x22] @ ''>x</span>'',
           ''<span foreground='' @ [CHR 0x22] @ ''#C678DD'' @ [CHR 0x22] @ ''>[</span>'',
           ''<span foreground='' @ [CHR 0x22] @ ''#E06C75'' @ [CHR 0x22] @ ''>a</span>'',
           ''<span foreground='' @ [CHR 0x22] @ ''#C678DD'' @ [CHR 0x22] @ ''>]</span>'',
           ''<span foreground='' @ [CHR 0x22] @ ''#D19A66'' @ [CHR 0x22] @ ''>)</span>'',
           ''<span foreground='' @ [CHR 0x22] @ ''#E06C75'' @ [CHR 0x22] @ ''>y</span>''], 0)"
    by (simp add: run_defs span_def safe_value_def regex_sub_def)
  from matching_right_same_color
         [OF ne l r net, of "[]" 0 "map char_token ''f''" "map char_token ''y''"]
  have "\<exists>out g'. process_tokens (OneDark ''#888888'') ([], 0)
                    (map char_token ''f'' @ char_token (CHR ''('') # map char_token ''x[a]'' @
                     char_token (CHR '')'') # map char_token ''y'') = Inr (out, g')"
    by auto
  with net run show ?thesis by simp
qed

text \<open>
  Claim C10. With a non-empty list of group colors, for every value of the counter,
  negative ones included, the index \<^verbatim>\<open>group_count % len(group_matchers)\<close> lies in
  \<open>[0, N)\<close> and the color is found there; so the loop over the tokens of a line returns
  on every token list, also when right tokens outnumber left ones.
\<close>

theorem group_index_in_range:
  assumes "group_matchers theme \<noteq> []"
  shows "(\<exists>i. py_mod g (int (length (group_matchers theme))) = Inr i \<and>
              0 \<le> i \<and> i < int (length (group_matchers theme)) \<and>
              group_color theme g = Inr (group_matchers theme ! nat i)) \<and>
         (\<exists>finished' g'. process_tokens theme (finished, g) tokens = Inr (finished', g'))"
proof (intro conjI)
  let ?n = "int (length (group_matchers theme))"
  from assms have "0 < ?n" by simp
  then have "py_mod g ?n = Inr (g mod ?n)" and "0 \<le> g mod ?n" and "g mod ?n < ?n"
    by (simp_all add: py_mod_def)
  with group_color_nonempty [OF assms, of g]
  show "\<exists>i. py_mod g ?n = Inr i \<and> 0 \<le> i \<and> i < ?n \<and>
            group_color theme g = Inr (group_matchers theme ! nat i)"
    by blast
next
  show "\<exists>finished' g'. process_tokens theme (finished, g) tokens = Inr (finished', g')"
    by (rule process_tokens_total [OF assms])
qed

theorem group_index_in_range_witness:
  "py_mod (- 1) (int (length (group_matchers (OneDark ''#888888'')))) = Inr 2 \<and>
   group_color (OneDark ''#888888'') (- 1) = Inr ''#56B6C2'' \<and>
   (\<exists>out. process_tokens (OneDark ''#888888'') ([], - 1) (map char_token ''))('') =
            Inr (out, - 2))"
proof -
  have ne: "group_matchers (OneDark ''#888888'') \<noteq> []" by (simp add: OneDark_def)
  from group_index_in_range [OF ne, of "- 1" "[]" "map char_token ''))(''"]
  show ?thesis by (simp add: run_defs)
qed

section \<open>Line separators\<close>

text \<open>
  Claim C6. For a text with a language that holds a tokenizer: whenever the finished text
  is built, the tokenizer has returned the tokens of every line of \<^verbatim>\<open>text.split("\n")\<close>
  and the finished text is the concatenation of one chunk for each line, in order, each
  chunk being what the inner loop appends for the tokens of that line followed by one
  separator \<^verbatim>\<open>"\r"\<close>; so the loop appends as many separators as there are lines, which is
  one more than the number of newlines in the text. The finished text is built when the
  tokenizer returns on every line and the list of group colors is not empty; an exception
  of the tokenizer leaves the loop.
\<close>

theorem separator_after_each_line:
  assumes "language lang = Some tokenizer"
  shows "(finished_text text (Some lang) theme = Inr out \<longrightarrow>
            (\<exists>tokss chunks.
                map (tokenize tokenizer) (str_split text (CHR 0x0A)) = map Inr tokss \<and>
                out = concat (concat (map (\<lambda>chunk. chunk @ [[CHR 0x0D]]) chunks)) \<and>
                length chunks = length (str_split text (CHR 0x0A)) \<and>
                list_all2 (\<lambda>chunk tokens. \<exists>d d'.
                             process_tokens theme ([], d) tokens = Inr (chunk, d'))
                          chunks tokss)) \<and>
         length (str_split text (CHR 0x0A)) = Suc (length (filter (\<lambda>c. c = CHR 0x0A) text)) \<and>
         (group_matchers theme \<noteq> [] \<and>
          map (tokenize tokenizer) (str_split text (CHR 0x0A)) = map Inr tokss' \<longrightarrow>
            (\<exists>out. finished_text text (Some lang) theme = Inr out)) \<and>
         (tokenize tokenizer (hd (str_split text (CHR 0x0A))) = Inl e \<longrightarrow>
            finished_text text (Some lang) theme = Inl e)"
proof (intro conjI impI)
  assume "finished_text text (Some lang) theme = Inr out"
  then obtain finished g where
    run: "process_lines lang theme ([], 0) (str_split text (CHR 0x0A)) = Inr (finished, g)" and
    out: "out = concat finished"
    by (auto simp: finished_text_def split: sum.splits)
  from process_lines_chunks [OF assms run] obtain tokss chunks where
    m: "map (tokenize tokenizer) (str_split text (CHR 0x0A)) = map Inr tokss" and
    f: "finished = [] @ concat (map (\<lambda>chunk. chunk @ [[CHR 0x0D]]) chunks)" and
    all: "list_all2 (\<lambda>chunk tokens. \<exists>d d'. process_tokens theme ([], d) tokens = Inr (chunk, d'))
            chunks tokss"
    by blast
  from all have "length chunks = length tokss" by (rule list_all2_lengthD)
  moreover from m have "length (str_split text (CHR 0x0A)) = length tokss"
    by (metis length_map)
  ultimately have "length chunks = length (str_split text (CHR 0x0A))" by simp
  with m f all out
  show "\<exists>tokss chunks.
          map (tokenize tokenizer) (str_split text (CHR 0x0A)) = map Inr tokss \<and>
          out = concat (concat (map (\<lambda>chunk. chunk @ [[CHR 0x0D]]) chunks)) \<and>
          length chunks = length (str_split text (CHR 0x0A)) \<and>
          list_all2 (\<lambda>chunk tokens. \<exists>d d'.
                       process_tokens theme ([], d) tokens = Inr (chunk, d'))
                    chunks tokss"
    by auto
next
  show "length (str_split text (CHR 0x0A)) = Suc (length (filter (\<lambda>c. c = CHR 0x0A) text))"
    by (rule length_str_split)
next
  assume "group_matchers theme \<noteq> [] \<and>
          map (tokenize tokenizer) (str_split text (CHR 0x0A)) = map Inr tokss'"
  then have ne: "group_matchers theme \<noteq> []"
    and m: "map (tokenize tokenizer) (str_split text (CHR 0x0A)) = map Inr tokss'"
    by simp_all
  from process_lines_total [OF assms ne m, of "[]" 0]
  show "\<exists>out. finished_text text (Some lang) theme = Inr out"
    by (auto simp: finished_text_def)
next
  assume e: "tokenize tokenizer (hd (str_split text (CHR 0x0A))) = Inl e"
  obtain line lines where s: "str_split text (CHR 0x0A) = line # lines"
    using str_split_nonempty [of _ "CHR 0x0A"] by (cases "str_split text (CHR 0x0A)") auto
  with e have "tokenize tokenizer line = Inl e" by simp
  from process_lines_raises [OF assms this, of theme "([], 0)" lines] s
  show "finished_text text (Some lang) theme = Inl e"
    by (simp add: finished_text_def)
qed

theorem separator_after_each_line_witness:
  "str_split (''(a'' @ [CHR 0x0A] @ ''b)'') (CHR 0x0A) = [''(a'', ''b)''] \<and>
   map (tokenize sample_tokenizer) [''(a'', ''b)''] =
     map Inr [map char_token ''(a'', map char_token ''b)''] \<and>
   finished_text (''(a'' @ [CHR 0x0A] @ ''b)'') (Some sample_language) (OneDark ''#888888'') =
     Inr (''<span foreground='' @ [CHR 0x22] @ ''#D19A66'' @ [CHR 0x22] @ ''>(</span>'' @
          ''<span foreground='' @ [CHR 0x22] @ ''#E06C75'' @ [CHR 0x22] @ ''>a</span>'' @ [CHR 0x0D] @
          ''<span foreground='' @ [CHR 0x22] @ ''#E06C75'' @ [CHR 0x22] @ ''>b</span>'' @
          ''<span foreground='' @ [CHR 0x22] @ ''#D19A66'' @ [CHR 0x22] @ ''>)</span>'' @ [CHR 0x0D]) \<and>
   tokenize sample_tokenizer (hd (str_split (CHR 0x09 # ''x'') (CHR 0x0A))) = Inl LibraryError \<and>
   finished_text (CHR 0x09 # ''x'') (Some sample_language) (OneDark ''#888888'') =
     Inl LibraryError"
proof -
  have lang: "language sample_language = Some sample_tokenizer"
    by (simp add: sample_language_def)
  have ne: "group_matchers (OneDark ''#888888'') \<noteq> []" by (simp add: OneDark_def)
  have pieces: "str_split (''(a'' @ [CHR 0x0A] @ ''b)'') (CHR 0x0A) = [''(a'', ''b)'']"
    by simp
  have toks: "map (tokenize sample_tokenizer) [''(a'', ''b)''] =
     map Inr [map char_token ''(a'', map char_token ''b)'']"
    by (simp add: sample_tokenizer_def char_tokenize_def)
  have run: "finished_text (''(a'' @ [CHR 0x0A] @ ''b)'') (Some sample_language) (OneDark ''#888888'') =
     Inr (''<span foreground='' @ [CHR 0x22] @ ''#D19A66'' @ [CHR 0x22] @ ''>(</span>'' @
          ''<span foreground='' @ [CHR 0x22] @ ''#E06C75'' @ [CHR 0x22] @ ''>a</span>'' @ [CHR 0x0D] @
          ''<span foreground='' @ [CHR 0x22] @ ''#E06C75'' @ [CHR 0x22] @ ''>b</span>'' @
          ''<span foreground='' @ [CHR 0x22] @ ''#D19A66'' @ [CHR 0x22] @ ''>)</span>'' @ [CHR 0x0D])"
    by (simp add: finished_text_def sample_language_def sample_tokenizer_def char_tokenize_def
          run_defs span_def safe_value_def regex_sub_def)
  have tab: "tokenize sample_tokenizer (hd (str_split (CHR 0x09 # ''x'') (CHR 0x0A))) =
               Inl LibraryError"
    by (simp add: sample_tokenizer_def char_tokenize_def)
  from separator_after_each_line
         [OF lang, of "CHR 0x09 # ''x''" "OneDark ''#888888''" _ _ LibraryError] tab
  have raised: "finished_text (CHR 0x09 # ''x'') (Some sample_language) (OneDark ''#888888'') =
     Inl LibraryError"
    by blast
  from separator_after_each_line
         [OF lang, of "(''(a'' @ [CHR 0x0A] @ ''b)'')" "OneDark ''#888888''"
            "''<span foreground='' @ [CHR 0x22] @ ''#D19A66'' @ [CHR 0x22] @ ''>(</span>'' @
             ''<span foreground='' @ [CHR 0x22] @ ''#E06C75'' @ [CHR 0x22] @ ''>a</span>'' @ [CHR 0x0D] @
             ''<span foreground='' @ [CHR 0x22] @ ''#E06C75'' @ [CHR 0x22] @ ''>b</span>'' @
             ''<span foreground='' @ [CHR 0x22] @ ''#D19A66'' @ [CHR 0x22] @ ''>)</span>'' @ [CHR 0x0D]"
            "[map char_token ''(a'', map char_token ''b)'']"]
       run ne pieces toks
  have "\<exists>out. finished_text (''(a'' @ [CHR 0x0A] @ ''b)'') (Some sample_language) (OneDark ''#888888'') =
          Inr out"
    by simp
  with pieces toks run tab raised show ?thesis by blast
qed

section \<open>Escaping\<close>

lemma regex_sub_Cons:
  "regex_sub p r (c # s) = (if c = p then r else [c]) @ regex_sub p r s"
  by (simp add: regex_sub_def)

lemma regex_sub_Nil: "regex_sub p r [] = []"
  by (simp add: regex_sub_def)

lemma regex_sub_append: "regex_sub p r (xs @ ys) = regex_sub p r xs @ regex_sub p r ys"
  by (simp add: regex_sub_def)

lemma safe_value_entities: "safe_value v = concat (map entity v)"
proof (induction v)
  case Nil
  then show ?case by (simp add: safe_value_def regex_sub_Nil)
next
  case (Cons c v)
  have "safe_value (c # v) = safe_value [c] @ safe_value v"
    by (simp add: safe_value_def regex_sub_Cons regex_sub_Nil regex_sub_append)
  moreover have "safe_value [c] = entity c"
    by (simp add: safe_value_def entity_def regex_sub_Cons regex_sub_Nil)
  ultimately show ?case using Cons.IH by simp
qed

lemma safe_value_no_angle: "CHR ''<'' \<notin> set (safe_value v) \<and> CHR ''>'' \<notin> set (safe_value v)"
  by (induction v) (auto simp: safe_value_entities entity_def)

lemma other_token_value_escaped:
  assumes "\<not> startswith (type token) ''left''" and "\<not> startswith (type token) ''right''"
    and "type token \<noteq> ''whitespace''"
  shows "process_token theme (finished, g) token =
           Inr (finished @
                  [''<span foreground='' @ [CHR 0x22] @ color_for theme token @ [CHR 0x22] @ ''>'' @
                     concat (map entity (value token)) @ ''</span>''], g)"
  using assms by (simp add: process_token_other safe_value_entities span_def)

text \<open>
  Claim C3, on the code: only the last branch of the loop replaces \<^verbatim>\<open>&\<close>, \<^verbatim>\<open><\<close> and \<^verbatim>\<open>>\<close>.
  The two bracket branches place the value of the token in the span as it is: a token of
  type \<^verbatim>\<open>left angle\<close> with the value \<^verbatim>\<open><\<close> and one of type \<^verbatim>\<open>right angle\<close> with the value
  \<^verbatim>\<open>>\<close> give spans that hold \<^verbatim>\<open><\<close> and \<^verbatim>\<open>>\<close>, where the last branch would have placed
  \<^verbatim>\<open>&lt;\<close> and \<^verbatim>\<open>&gt;\<close>.
\<close>

theorem bracket_value_not_escaped:
  "process_token (OneDark ''#888888'') ([], 0) \<lparr>type = ''left angle'', value = ''<''\<rparr> =
     Inr ([''<span foreground='' @ [CHR 0x22] @ ''#D19A66'' @ [CHR 0x22] @ ''><</span>''], 1) \<and>
   process_token (OneDark ''#888888'') ([], 1) \<lparr>type = ''right angle'', value = ''>''\<rparr> =
     Inr ([''<span foreground='' @ [CHR 0x22] @ ''#D19A66'' @ [CHR 0x22] @ ''>></span>''], 0) \<and>
   process_token (OneDark ''#888888'') ([], 0) \<lparr>type = ''symbol'', value = ''<''\<rparr> =
     Inr ([''<span foreground='' @ [CHR 0x22] @ ''#56B6C2'' @ [CHR 0x22] @ ''>&lt;</span>''], 0) \<and>
   safe_value ''<'' = ''&lt;'' \<and> safe_value ''>'' = ''&gt;''"
  by (simp add: run_defs safe_value_def regex_sub_def span_def)

section \<open>No language\<close>

text \<open>
  Claim C7. Without a language, for every text, theme and font, the markup string is built
  without an error and is the span of the font around one span of the color
  \<^verbatim>\<open>#FFFFFF\<close> that holds the text as it is; no token is colored and the theme is not read.
\<close>

theorem no_language_plain_white:
  "markup_string text None theme font = Inr (font_span font (span ''#FFFFFF'' text)) \<and>
   span ''#FFFFFF'' text =
     ''<span foreground='' @ [CHR 0x22] @ ''#FFFFFF'' @ [CHR 0x22] @ ''>'' @ text @ ''</span>'' \<and>
   font_span font (span ''#FFFFFF'' text) =
     ''<span font='' @ [CHR 0x22] @ font @ [CHR 0x22] @ ''>'' @ span ''#FFFFFF'' text @ ''</span>''"
  by (simp add: markup_string_def finished_text_def span_def font_span_def)

section \<open>Constructing a language\<close>

text \<open>
  Claim C4, on the code: the constructor raises \<^verbatim>\<open>AttributeError\<close> for a name the module
  \<^verbatim>\<open>tokenize_all\<close> does not have and \<^verbatim>\<open>KeyError\<close> for a name the color table does not
  have. It prints a warning and returns only when the table has the name with a null color.
\<close>

theorem unknown_language_raises:
  "ProgrammingLanguage_init sample_module sample_colors ''Klingon'' None = Inl AttributeError \<and>
   ProgrammingLanguage_init sample_module sample_colors ''COBOL'' (Some ''C'') = Inl KeyError \<and>
   ProgrammingLanguage_init sample_module sample_colors ''Text'' (Some ''Python'') =
     Inr (\<lparr>name = ''Text'', color = None, language = Some sample_tokenizer\<rparr>,
          [''Warning: no color found for Text''])"
  by (simp add: ProgrammingLanguage_init_def sample_module_def sample_colors_def
        attribute_name_def registrations_def)

section \<open>The network\<close>

text \<open>
  Claim C8 does not hold of the module: with the network down, importing it fails with
  the error of the fetch.
\<close>

theorem module_load_offline_fails:
  "module_load offline sample_json_loads sample_module = Inl URLError"
  by (simp add: module_load_def language_colors_def offline_def)

text \<open>
  Claim C8, amended. Importing the module fetches the color table from the fixed address:
  an error of the fetch is the error of the import, and an import that succeeds has read
  a body from that address, parsed it, and constructed its languages from the table
  parsed. The markup string is computed from the text, the language, the theme and the
  font alone.
\<close>

theorem module_load_fetches_colors:
  "(urlopen colors_url = Inl e \<longrightarrow> module_load urlopen json_loads tokenize_all = Inl e) \<and>
   (module_load urlopen json_loads tokenize_all = Inr m \<longrightarrow>
      (\<exists>body tbl. urlopen colors_url = Inr body \<and> json_loads body = Inr tbl \<and>
                  language_colors urlopen json_loads = Inr tbl \<and>
                  construct_all tokenize_all tbl registrations = Inr m))"
  by (auto simp: module_load_def language_colors_def split: sum.splits)

theorem module_load_fetches_colors_witness:
  "offline colors_url = Inl URLError \<and>
   module_load offline sample_json_loads sample_module = Inl URLError \<and>
   online colors_url = Inr ''colors.json'' \<and>
   language_colors online sample_json_loads = Inr sample_colors \<and>
   (\<exists>m. module_load online sample_json_loads sample_module = Inr m \<and>
        construct_all sample_module sample_colors registrations = Inr m)"
proof -
  have off: "offline colors_url = Inl URLError" by (simp add: offline_def)
  have on: "online colors_url = Inr ''colors.json''" by (simp add: online_def)
  have lc: "language_colors online sample_json_loads = Inr sample_colors"
    by (simp add: language_colors_def online_def sample_json_loads_def)
  have "\<exists>m. construct_all sample_module sample_colors registrations = Inr m"
    by (simp add: registrations_def ProgrammingLanguage_init_def sample_module_def
          sample_colors_def attribute_name_def)
  then obtain m where m: "construct_all sample_module sample_colors registrations = Inr m" ..
  with lc have ml: "module_load online sample_json_loads sample_module = Inr m"
    by (simp add: module_load_def)
  from module_load_fetches_colors [of offline URLError sample_json_loads sample_module m]
       module_load_fetches_colors [of online URLError sample_json_loads sample_module m]
       off on lc m ml
  show ?thesis by auto
qed

end
